theory Spec2Isabelle
  imports Complex_Main "HOL-Library.Sublist" "HOL-Library.AList"
begin

section \<open>JavaScript values\<close>

text \<open>
  The values that JSON bodies and plain option objects carry. \<open>JUndefined\<close> is the
  value of a missing property; \<open>JNaN\<close> is the one number that is not a rational. An
  object is the list of its own properties in insertion order.
\<close>

datatype js =
    JUndefined
  | JNull
  | JBool bool
  | JNum rat
  | JNaN
  | JStr string
  | JArr "js list"
  | JObj "(string \<times> js) list"

text \<open>Truthiness, as \<open>!v\<close>, \<open>a || b\<close> and \<open>if (v)\<close> read it.\<close>

fun truthy :: "js \<Rightarrow> bool" where
  "truthy JUndefined = False"
| "truthy JNull = False"
| "truthy (JBool b) = b"
| "truthy (JNum q) = (q \<noteq> 0)"
| "truthy JNaN = False"
| "truthy (JStr s) = (s \<noteq> [])"
| "truthy (JArr xs) = True"
| "truthy (JObj kvs) = True"

text \<open>\<open>a || b\<close> and \<open>a ?? b\<close> on values.\<close>

definition js_or :: "js \<Rightarrow> js \<Rightarrow> js" where
  "js_or a b = (if truthy a then a else b)"

definition nullish :: "js \<Rightarrow> js \<Rightarrow> js" where
  "nullish a b = (if a = JUndefined \<or> a = JNull then b else a)"

text \<open>Errors thrown by the runtime or by the code; \<open>Error\<close> carries the argument
  of \<open>new Error(...)\<close>.\<close>

datatype js_error = Error js | TypeError | SyntaxError

text \<open>
  Property access \<open>v.k\<close>, for the names the code reads (none of them is a built-in
  property of a string, number, boolean or array): it throws on \<open>undefined\<close> and
  \<open>null\<close>, and gives \<open>undefined\<close> for a property that is not there.
\<close>

fun get_prop :: "js \<Rightarrow> string \<Rightarrow> js_error + js" where
  "get_prop JUndefined k = Inl TypeError"
| "get_prop JNull k = Inl TypeError"
| "get_prop (JObj kvs) k = Inr (case map_of kvs k of None \<Rightarrow> JUndefined | Some v \<Rightarrow> v)"
| "get_prop v k = Inr JUndefined"

section \<open>Process environment and the proxy base address\<close>

text \<open>\<open>process.env\<close>: the variables that are set, with their values.\<close>

type_synonym process_env = "(string \<times> string) list"

definition env_eq :: "process_env \<Rightarrow> string \<Rightarrow> string \<Rightarrow> bool" where
  "env_eq env k v = (map_of env k = Some v)"

text \<open>distribution_utils.ts, line 2.\<close>

definition IS_DISTRIBUTION_BUILD :: "process_env \<Rightarrow> bool" where
  "IS_DISTRIBUTION_BUILD env = env_eq env ''DYAD_DISTRIBUTION_BUILD'' ''true''"

text \<open>
  distribution_utils.ts, lines 17-20 and 245-247. \<open>getEnvVar\<close> comes from
  \<open>./read_env\<close>, which is not among the sources: its result for
  \<open>DYAD_DISTRIBUTION_PROXY_URL\<close> is the parameter \<open>envVar\<close> (\<open>None\<close> for
  \<open>undefined\<close>). An empty string is falsy for \<open>||\<close>.
\<close>

definition VIBEATHON_API_BASE :: "string option \<Rightarrow> process_env \<Rightarrow> string" where
  "VIBEATHON_API_BASE envVar env =
     (case envVar of
        Some url \<Rightarrow>
          if url \<noteq> [] then url
          else if env_eq env ''NODE_ENV'' ''development''
            then ''http://app.vibeathon.test/api/v1''
            else ''https://app.vibeathon.us/api/v1''
      | None \<Rightarrow>
          if env_eq env ''NODE_ENV'' ''development''
            then ''http://app.vibeathon.test/api/v1''
            else ''https://app.vibeathon.us/api/v1'')"

definition getVibeathonProxyUrl_utils :: "string option \<Rightarrow> process_env \<Rightarrow> string" where
  "getVibeathonProxyUrl_utils envVar env = VIBEATHON_API_BASE envVar env"

text \<open>The settings module's resolution (unnamed/part_006, lines 226-238), which reads
  \<open>process.env\<close> itself.\<close>

definition getVibeathonProxyUrl :: "process_env \<Rightarrow> string" where
  "getVibeathonProxyUrl env =
     (case map_of env ''DYAD_DISTRIBUTION_PROXY_URL'' of
        Some envUrl \<Rightarrow>
          if envUrl \<noteq> [] then envUrl
          else if env_eq env ''NODE_ENV'' ''development''
            then ''https://app.vibeathon.test/api/v1''
            else ''https://app.vibeathon.us/api/v1''
      | None \<Rightarrow>
          if env_eq env ''NODE_ENV'' ''development''
            then ''https://app.vibeathon.test/api/v1''
            else ''https://app.vibeathon.us/api/v1'')"

section \<open>Telemetry wrappers\<close>

text \<open>
  lib/telemetry.ts, lines 1-36. The telemetry backend is the list of calls that reached
  \<open>posthog\<close>, oldest first.
\<close>

datatype posthog_call = Capture string js | CaptureException js_error

definition captureEvent ::
  "process_env \<Rightarrow> string \<Rightarrow> js \<Rightarrow> posthog_call list \<Rightarrow> posthog_call list" where
  "captureEvent env eventName properties posthog =
     (if IS_DISTRIBUTION_BUILD env then posthog
      else posthog @ [Capture eventName properties])"

definition captureException ::
  "process_env \<Rightarrow> js_error \<Rightarrow> posthog_call list \<Rightarrow> posthog_call list" where
  "captureException env err posthog =
     (if IS_DISTRIBUTION_BUILD env then posthog
      else posthog @ [CaptureException err])"

definition isTelemetryEnabled :: "process_env \<Rightarrow> bool" where
  "isTelemetryEnabled env = (\<not> IS_DISTRIBUTION_BUILD env)"

text \<open>Any sequence of calls of the two wrappers, run in order.\<close>

datatype telemetry_call = CallCaptureEvent string js | CallCaptureException js_error

fun run_telemetry ::
  "process_env \<Rightarrow> telemetry_call list \<Rightarrow> posthog_call list \<Rightarrow> posthog_call list" where
  "run_telemetry env [] posthog = posthog"
| "run_telemetry env (CallCaptureEvent n p # cs) posthog =
     run_telemetry env cs (captureEvent env n p posthog)"
| "run_telemetry env (CallCaptureException e # cs) posthog =
     run_telemetry env cs (captureException env e posthog)"

section \<open>Settings schema\<close>

text \<open>
  The distribution part of \<open>UserSettings\<close>, as the code reads it: every field may be
  undefined (\<open>None\<close>), which the code handles with \<open>?.\<close> and \<open>??\<close>. Settings are
  read from a JSON file, so an undefined field is an absent one. A secret is
  \<open>{value, encryptionType?}\<close>; the fallback secrets hold whatever value the
  credentials endpoint returned (the code casts it with \<open>as string\<close>).
\<close>

record 'v secret =
  secret_value :: 'v
  encryptionType :: "string option"

record proxySettings =
  enabled :: "bool option"
  baseUrl :: "string option"
  fallbackApiKeys :: "(string \<times> js secret) list option"
  fallbackKeysExpiration :: "js option"
  retryCount :: "int option"
  lastFailure :: "string option"
  useFallback :: "bool option"

record distributionMode =
  hideCommercialFeatures :: "bool option"
  hideProButtons :: "bool option"
  hideExternalIntegrations :: "bool option"
  hideNavigation :: "string list option"
  vibeathonApiKey :: "string secret option"
  proxySettings :: "proxySettings option"

text \<open>\<open>otherSettings\<close> stands for the top-level settings outside
  \<open>distributionMode\<close> (selectedModel, providerSettings, ...).\<close>

record UserSettings =
  distributionMode :: "distributionMode option"
  otherSettings :: "(string \<times> js) list"

text \<open>\<open>settings.distributionMode?.f\<close> and
  \<open>settings.distributionMode?.proxySettings?.f\<close>.\<close>

definition mode_field :: "(distributionMode \<Rightarrow> 'a option) \<Rightarrow> UserSettings \<Rightarrow> 'a option" where
  "mode_field f settings = Option.bind (distributionMode settings) f"

definition proxy_field :: "(proxySettings \<Rightarrow> 'a option) \<Rightarrow> UserSettings \<Rightarrow> 'a option" where
  "proxy_field f settings =
     Option.bind (Option.bind (distributionMode settings) proxySettings) f"

section \<open>Feature visibility gate\<close>

text \<open>distribution_utils.ts, lines 5-12, and the later list of unnamed/part_006,
  lines 212-222.\<close>

definition DISTRIBUTION_FEATURE_KEYS :: "string list" where
  "DISTRIBUTION_FEATURE_KEYS =
     [''pro-banner'', ''pro-buttons'', ''hub-nav'', ''library-nav'', ''import-app'',
      ''more-ideas'']"

definition DISTRIBUTION_FEATURE_KEYS_ext :: "string list" where
  "DISTRIBUTION_FEATURE_KEYS_ext =
     DISTRIBUTION_FEATURE_KEYS @ [''model-providers'', ''model-picker'', ''provider-setup'']"

text \<open>\<open>a || b\<close> on fields that are a boolean or undefined.\<close>

definition bool_or :: "bool option \<Rightarrow> bool option \<Rightarrow> bool option" where
  "bool_or a b = (if a = Some True then a else b)"

text \<open>\<open>settings?.distributionMode\<close>, for a settings argument that may itself be
  undefined.\<close>

definition mode_of :: "UserSettings option \<Rightarrow> distributionMode option" where
  "mode_of settings = (case settings of None \<Rightarrow> None | Some s \<Rightarrow> distributionMode s)"

text \<open>
  \<open>shouldHideFeature\<close> of lib/schemas.ts, as given in
  thoughts/shared/research/2025-09-23-distribution-feature-flags.md, lines 149-170.
  The result is what the JavaScript returns: a boolean, or undefined (\<open>None\<close>) where
  the field read is undefined.
\<close>

definition shouldHideFeature :: "UserSettings option \<Rightarrow> string \<Rightarrow> bool option" where
  "shouldHideFeature settings featureKey =
     (case mode_of settings of
        None \<Rightarrow> Some False
      | Some config \<Rightarrow>
          if featureKey = ''pro-banner''
            then bool_or (hideCommercialFeatures config) (hideProButtons config)
          else if featureKey = ''pro-buttons'' then hideProButtons config
          else if featureKey = ''hub-nav''
            then map_option (\<lambda>nav. ''hub'' \<in> set nav) (hideNavigation config)
          else if featureKey = ''library-nav''
            then map_option (\<lambda>nav. ''library'' \<in> set nav) (hideNavigation config)
          else if featureKey = ''import-app'' then hideExternalIntegrations config
          else if featureKey = ''more-ideas'' then hideCommercialFeatures config
          else Some False)"

text \<open>
  The same function with the three cases that
  thoughts/shared/plans/2025-09-23-vibeathon-proxy-routing.md, lines 92-96, adds to
  the switch (the keys \<open>ChatInputControls\<close> and the settings list ask for).
\<close>

definition shouldHideFeature_ext :: "UserSettings option \<Rightarrow> string \<Rightarrow> bool option" where
  "shouldHideFeature_ext settings featureKey =
     (case mode_of settings of
        None \<Rightarrow> Some False
      | Some config \<Rightarrow>
          if featureKey = ''model-providers'' \<or> featureKey = ''model-picker''
             \<or> featureKey = ''provider-setup''
            then bool_or (hideCommercialFeatures config)
                   (case proxySettings config of None \<Rightarrow> None | Some ps \<Rightarrow> enabled ps)
          else shouldHideFeature settings featureKey)"





section \<open>The fallback-credentials endpoint\<close>

text \<open>
  \<open>fetch\<close> is a parameter: the network maps a request to a rejected promise or to a
  response. \<open>json_body\<close> is what \<open>response.json()\<close> resolves to, \<open>None\<close> when it
  rejects because the body is not JSON.
\<close>

record request =
  req_url :: string
  req_method :: string
  req_headers :: "(string \<times> string) list"
  req_body :: "string option"

record response =
  ok :: bool
  statusText :: string
  json_body :: "js option"

datatype fetch_outcome = Rejected js_error | Resolved response

type_synonym network = "request \<Rightarrow> fetch_outcome"

text \<open>A network that answers every request with the same response.\<close>

definition serve :: "response \<Rightarrow> network" where
  "serve r req = Resolved r"

definition ai_keys_request :: "string \<Rightarrow> string \<Rightarrow> request" where
  "ai_keys_request api_base apiKey =
     \<lparr>req_url = api_base @ ''/user/ai-keys'', req_method = ''GET'',
      req_headers = [(''Authorization'', ''Bearer '' @ apiKey),
                     (''Content-Type'', ''application/json'')],
      req_body = None\<rparr>"

text \<open>The message of the error thrown for a response that is not ok
  (distribution_utils.ts, lines 47-56): the body's \<open>message\<close> when the body parses
  and the message is truthy, the status text otherwise.\<close>

definition errorMessage :: "response \<Rightarrow> js" where
  "errorMessage response =
     (case json_body response of
        None \<Rightarrow> JStr (''Failed to fetch API keys: '' @ statusText response)
      | Some errorData \<Rightarrow>
          (case get_prop errorData ''message'' of
             Inl e \<Rightarrow> JStr (''Failed to fetch API keys: '' @ statusText response)
           | Inr m \<Rightarrow>
               if truthy m then m
               else JStr (''Failed to fetch API keys: '' @ statusText response)))"

text \<open>distribution_utils.ts, lines 37-69; \<open>api_base\<close> is the value of
  \<open>VIBEATHON_API_BASE\<close>.\<close>

definition fetchFallbackApiKeys :: "string \<Rightarrow> network \<Rightarrow> string \<Rightarrow> js_error + js" where
  "fetchFallbackApiKeys api_base fetch apiKey =
     (case fetch (ai_keys_request api_base apiKey) of
        Rejected e \<Rightarrow> Inl e
      | Resolved response \<Rightarrow>
          if \<not> ok response then Inl (Error (errorMessage response))
          else
            (case json_body response of
               None \<Rightarrow> Inl SyntaxError
             | Some data \<Rightarrow>
                 (case get_prop data ''expiration'' of
                    Inl e \<Rightarrow> Inl e
                  | Inr expiration \<Rightarrow>
                      if \<not> truthy expiration
                        then Inl (Error (JStr ''Invalid response: missing expiration date''))
                        else Inr data)))"

text \<open>distribution_utils.ts, lines 77-85: the \<open>try\<close> returns true, the \<open>catch\<close>
  returns false.\<close>

definition validateVibeathonApiKey :: "string \<Rightarrow> network \<Rightarrow> string \<Rightarrow> js_error + bool" where
  "validateVibeathonApiKey api_base fetch apiKey =
     (case fetchFallbackApiKeys api_base fetch apiKey of
        Inl e \<Rightarrow> Inr False
      | Inr data \<Rightarrow> Inr True)"

text \<open>Whether a value is an object with an own property of that name.\<close>

fun has_prop :: "js \<Rightarrow> string \<Rightarrow> bool" where
  "has_prop (JObj kvs) k = (k \<in> fst ` set kvs)"
| "has_prop v k = False"

section \<open>The proxy wire format\<close>

text \<open>distribution_utils.ts, lines 161-172.\<close>

definition inferProviderFromModel :: "string \<Rightarrow> string" where
  "inferProviderFromModel model =
     (if prefix ''gpt-'' model \<or> prefix ''o1-'' model then ''openai''
      else if prefix ''claude-'' model then ''anthropic''
      else if prefix ''gemini-'' model then ''google''
      else if prefix ''grok-'' model then ''xai''
      else ''unknown'')"

text \<open>
  What the clock and the random generator give during one call: \<open>Date.now()\<close> in
  digits, the tail \<open>Math.random().toString(36).substr(2, 9)\<close>, and
  \<open>new Date().toISOString()\<close>.
\<close>

record clock =
  date_now :: string
  random_tail :: string
  iso_now :: string

text \<open>distribution_utils.ts, lines 174-176.\<close>

definition generateRequestId :: "clock \<Rightarrow> string" where
  "generateRequestId clk = ''req-'' @ date_now clk @ ''-'' @ random_tail clk"

text \<open>A property read on a value that is neither undefined nor null.\<close>

definition field :: "js \<Rightarrow> string \<Rightarrow> js" where
  "field v k = (case get_prop v k of Inl e \<Rightarrow> JUndefined | Inr x \<Rightarrow> x)"

text \<open>The object literal \<open>request\<close> of distribution_utils.ts, lines 135-153, for an
  \<open>options\<close> value that is neither undefined nor null.\<close>

definition request_literal :: "clock \<Rightarrow> string \<Rightarrow> js list \<Rightarrow> js \<Rightarrow> (string \<times> js) list" where
  "request_literal clk model messages options =
     [(''model'', JStr model),
      (''messages'', JArr messages),
      (''stream'', nullish (field options ''stream'') (JBool True)),
      (''max_tokens'', js_or (field options ''maxTokens'') (field options ''max_tokens'')),
      (''temperature'', nullish (field options ''temperature'') (JNum (7 / 10))),
      (''top_p'', field options ''top_p''),
      (''frequency_penalty'', field options ''frequency_penalty''),
      (''presence_penalty'', field options ''presence_penalty''),
      (''stop'', field options ''stop''),
      (''metadata'', JObj
         [(''original_provider'',
             js_or (field options ''originalProvider'') (JStr (inferProviderFromModel model))),
          (''request_id'', js_or (field options ''requestId'') (JStr (generateRequestId clk))),
          (''user_agent'', JStr ''Dyad/Distribution''),
          (''timestamp'', JStr (iso_now clk))])]"

text \<open>
  distribution_utils.ts, lines 129-159. An omitted or undefined \<open>options\<close> takes the
  default \<open>{}\<close>; \<open>null\<close> makes the first property read throw. The result is the
  object built by \<open>Object.fromEntries\<close> from the entries that pass the filter.
\<close>

definition transformToOpenAIFormat ::
  "clock \<Rightarrow> string \<Rightarrow> js list \<Rightarrow> js \<Rightarrow> js_error + (string \<times> js) list" where
  "transformToOpenAIFormat clk model messages options_arg =
     (if options_arg = JNull then Inl TypeError
      else Inr (filter (\<lambda>(k, val). val \<noteq> JUndefined)
             (request_literal clk model messages
                (if options_arg = JUndefined then JObj [] else options_arg))))"

section \<open>Storing the fallback credentials\<close>

text \<open>
  Modelled from the spec: \<open>readSettings\<close> and \<open>writeSettings\<close> of main/settings are
  not among the sources. Following the settings store contract of the specification
  (\<open>read() -> RoutingConfig\<close>, \<open>update(partial)\<close> merging per field), reading returns
  the stored settings and writing replaces each top-level field the partial names. All
  callers in the sources pass a partial that names \<open>distributionMode\<close> only.
\<close>

record settings_partial =
  partial_distributionMode :: "distributionMode option"

definition readSettings :: "UserSettings \<Rightarrow> UserSettings" where
  "readSettings store = store"

definition writeSettings :: "settings_partial \<Rightarrow> UserSettings \<Rightarrow> UserSettings" where
  "writeSettings partial store =
     (case partial_distributionMode partial of
        None \<Rightarrow> store
      | Some d \<Rightarrow> store\<lparr>distributionMode := Some d\<rparr>)"

text \<open>\<open>x ?? d\<close> on an optional field, and the field \<open>f\<close> of \<open>{f: a, ...obj}\<close> where
  \<open>obj.f\<close> is \<open>b\<close>: the spread wins where the object has the property.\<close>

definition nullish_opt :: "'a option \<Rightarrow> 'a \<Rightarrow> 'a" where
  "nullish_opt x d = (case x of None \<Rightarrow> d | Some v \<Rightarrow> v)"

definition spread_over :: "'a option \<Rightarrow> 'a option \<Rightarrow> 'a option" where
  "spread_over a b = (case b of None \<Rightarrow> a | Some v \<Rightarrow> Some v)"

text \<open>\<open>Object.entries\<close> of the credentials object; \<open>fetchFallbackApiKeys\<close> returns
  objects only (lemma \<open>fetchFallbackApiKeys_object\<close>).\<close>

fun object_entries :: "js \<Rightarrow> (string \<times> js) list" where
  "object_entries (JObj kvs) = kvs"
| "object_entries v = []"

text \<open>unnamed/part_006, lines 150-158: the entries other than \<open>expiration\<close>, each
  wrapped as a secret; the spread in the reducer replaces a provider already there and
  appends a new one.\<close>

definition to_fallbackApiKeys :: "js \<Rightarrow> (string \<times> js secret) list" where
  "to_fallbackApiKeys apiKeys =
     foldl (\<lambda>acc (provider, key).
              AList.update provider
                \<lparr>secret_value = key, encryptionType = Some ''electron-safe-storage''\<rparr> acc)
       [] (filter (\<lambda>(key, val). key \<noteq> ''expiration'') (object_entries apiKeys))"

definition js_opt :: "js \<Rightarrow> js option" where
  "js_opt v = (if v = JUndefined then None else Some v)"

text \<open>The object passed to \<open>writeSettings\<close> (unnamed/part_006, lines 160-176), for
  the distribution settings \<open>dm\<close> that were read.\<close>

definition written_proxySettings ::
  "proxySettings option \<Rightarrow> js \<Rightarrow> proxySettings" where
  "written_proxySettings ps apiKeys =
     \<lparr>enabled =
        spread_over (Some (nullish_opt (Option.bind ps enabled) False)) (Option.bind ps enabled),
      baseUrl = Option.bind ps baseUrl,
      fallbackApiKeys = Some (to_fallbackApiKeys apiKeys),
      fallbackKeysExpiration = js_opt (field apiKeys ''expiration''),
      retryCount =
        spread_over (Some (nullish_opt (Option.bind ps retryCount) 0)) (Option.bind ps retryCount),
      lastFailure = Option.bind ps lastFailure,
      useFallback =
        spread_over (Some (nullish_opt (Option.bind ps useFallback) False))
          (Option.bind ps useFallback)\<rparr>"

definition written_distributionMode :: "distributionMode \<Rightarrow> js \<Rightarrow> distributionMode" where
  "written_distributionMode dm apiKeys =
     \<lparr>hideCommercialFeatures =
        spread_over (Some (nullish_opt (hideCommercialFeatures dm) False))
          (hideCommercialFeatures dm),
      hideProButtons =
        spread_over (Some (nullish_opt (hideProButtons dm) False)) (hideProButtons dm),
      hideExternalIntegrations =
        spread_over (Some (nullish_opt (hideExternalIntegrations dm) False))
          (hideExternalIntegrations dm),
      hideNavigation =
        spread_over (Some (nullish_opt (hideNavigation dm) [])) (hideNavigation dm),
      vibeathonApiKey = vibeathonApiKey dm,
      proxySettings = Some (written_proxySettings (proxySettings dm) apiKeys)\<rparr>"

text \<open>
  unnamed/part_006, lines 139-177, on the settings store: the result and the store
  afterwards. An error leaves before \<open>writeSettings\<close> is reached.
\<close>

definition fetchVibeathonFallbackKeys ::
  "string \<Rightarrow> network \<Rightarrow> UserSettings \<Rightarrow> (js_error + unit) \<times> UserSettings" where
  "fetchVibeathonFallbackKeys api_base fetch store =
     (case distributionMode (readSettings store) of
        None \<Rightarrow> (Inl (Error (JStr ''Vibeathon API key not configured'')), store)
      | Some dm \<Rightarrow>
          (case vibeathonApiKey dm of
             None \<Rightarrow> (Inl (Error (JStr ''Vibeathon API key not configured'')), store)
           | Some sec \<Rightarrow>
               if secret_value sec = []
                 then (Inl (Error (JStr ''Vibeathon API key not configured'')), store)
               else
                 (case fetchFallbackApiKeys api_base fetch (secret_value sec) of
                    Inl e \<Rightarrow> (Inl e, store)
                  | Inr apiKeys \<Rightarrow>
                      (Inr (),
                       writeSettings
                         \<lparr>partial_distributionMode =
                            Some (written_distributionMode dm apiKeys)\<rparr> store))))"

section \<open>Retry and proxy failure\<close>

text \<open>
  An error thrown by one proxy attempt: what kind of failure it was, and its message.
  The retry code reads the message only.
\<close>

datatype failure_kind = NetworkFailure | TimedOut | HttpStatus nat | MalformedRequest

record op_error =
  err_kind :: failure_kind
  err_message :: string

text \<open>Modelled from the spec: the classification of failures is not in the sources.
  The specification calls network errors, timeouts and 5xx responses retryable, and 401
  and malformed requests non-retryable.\<close>

fun retryable :: "failure_kind \<Rightarrow> bool" where
  "retryable NetworkFailure = True"
| "retryable TimedOut = True"
| "retryable (HttpStatus n) = (500 \<le> n \<and> n < 600)"
| "retryable MalformedRequest = False"

text \<open>thoughts/shared/plans/2025-09-23-vibeathon-proxy-routing.md, lines 475-519:
  \<open>VibeathonRetryManager\<close> and \<open>VibeathonProxyError\<close>.\<close>

definition MAX_RETRIES :: nat where
  "MAX_RETRIES = 10"

definition BASE_DELAY :: nat where
  "BASE_DELAY = 1000"

datatype retry_error =
    VibeathonProxyError string op_error
  | LastErrorUndefined

text \<open>The error thrown when the loop ends without a result, and the delay slept
  after a failed attempt.\<close>

definition exhausted_error :: "op_error \<Rightarrow> retry_error" where
  "exhausted_error lastError =
     VibeathonProxyError (''Failed after 10 attempts: '' @ err_message lastError) lastError"

definition backoff :: "nat \<Rightarrow> nat" where
  "backoff attempt = BASE_DELAY * 2 ^ (attempt - 1)"

text \<open>What one run does, in order: the invocations of the operation, the calls of the
  \<open>onRetry\<close> callback and the sleeps in milliseconds (the log lines are left out).\<close>

datatype retry_event = Invoked nat | OnRetry nat op_error | Slept nat

text \<open>
  The \<open>for\<close> loop of \<open>executeWithRetry\<close>. The operation is given by the outcome of
  its invocation in each attempt; \<open>onRetry\<close> tells whether the callback was passed.
  After the loop the code reads \<open>lastError.message\<close>, which throws if no attempt ran.
\<close>

function retry_loop ::
  "(nat \<Rightarrow> op_error + 'a) \<Rightarrow> bool \<Rightarrow> nat \<Rightarrow> op_error option \<Rightarrow> retry_event list
     \<Rightarrow> (retry_error + 'a) \<times> retry_event list" where
  "retry_loop operation onRetry attempt lastError tr =
     (if attempt \<le> MAX_RETRIES then
        (case operation attempt of
           Inr v \<Rightarrow> (Inr v, tr @ [Invoked attempt])
         | Inl err \<Rightarrow>
             retry_loop operation onRetry (attempt + 1) (Some err)
               (tr @ [Invoked attempt]
                   @ (if onRetry then [OnRetry attempt err] else [])
                   @ (if attempt < MAX_RETRIES then [Slept (backoff attempt)] else [])))
      else
        (case lastError of
           None \<Rightarrow> (Inl LastErrorUndefined, tr)
         | Some e \<Rightarrow> (Inl (exhausted_error e), tr)))"
  by pat_completeness auto
termination
  by (relation "measure (\<lambda>(operation, onRetry, attempt, lastError, tr).
        Suc MAX_RETRIES - attempt)") auto

declare retry_loop.simps [simp del]

definition executeWithRetry ::
  "(nat \<Rightarrow> op_error + 'a) \<Rightarrow> bool \<Rightarrow> (retry_error + 'a) \<times> retry_event list" where
  "executeWithRetry operation onRetry = retry_loop operation onRetry 1 None []"

text \<open>An operation that fails with the same error in every attempt.\<close>

definition always_fails :: "op_error \<Rightarrow> nat \<Rightarrow> op_error + 'a" where
  "always_fails e attempt = Inl e"

text \<open>The attempts made and the delays slept, read off a run.\<close>

fun invocations :: "retry_event list \<Rightarrow> nat list" where
  "invocations [] = []"
| "invocations (Invoked n # es) = n # invocations es"
| "invocations (e # es) = invocations es"

fun sleeps :: "retry_event list \<Rightarrow> nat list" where
  "sleeps [] = []"
| "sleeps (Slept d # es) = d # sleeps es"
| "sleeps (e # es) = sleeps es"

text \<open>The run without the callback events: attempts and sleeps in their order.\<close>

fun schedule :: "retry_event list \<Rightarrow> retry_event list" where
  "schedule [] = []"
| "schedule (OnRetry n e # es) = schedule es"
| "schedule (e # es) = e # schedule es"

text \<open>A failed attempt that is followed by another one: the invocation, then the
  sleep.\<close>

definition failed_round :: "nat \<Rightarrow> retry_event list" where
  "failed_round attempt = [Invoked attempt, Slept (backoff attempt)]"

section \<open>Proxy failure handling in the model client factory\<close>

text \<open>
  thoughts/shared/plans/2025-09-23-vibeathon-proxy-routing.md: \<open>getModelClient\<close> with
  retry (lines 529-560), \<open>markProxyFailed\<close> (lines 562-574), the failed-request table
  and \<open>RequestLogger.logFailedRequest\<close> (lines 672-713) and the catch block that
  logs the request (lines 737-759).
\<close>

record failed_request =
  fr_id :: string
  fr_userId :: string
  fr_requestData :: js
  fr_timestamp :: string
  fr_retryCount :: int
  fr_synced :: bool
  fr_error :: string

text \<open>The settings store and the failed-request table.\<close>

record app_state =
  settings_store :: UserSettings
  failed_requests :: "failed_request list"

text \<open>
  What the clock and the helpers that are not among the sources give during one call:
  \<open>new Date().toISOString()\<close> at each of its three uses, \<open>generateId()\<close>,
  \<open>extractUserIdFromSettings(settings)\<close>, \<open>getCurrentMessageCount()\<close>, whether
  the database insert succeeds, and whether the stored \<open>lastFailure\<close> is later than
  five minutes ago (\<open>new Date(lastFailure) > fiveMinutesAgo\<close>).
\<close>

record call_env =
  request_time :: string
  insert_time :: string
  failure_time :: string
  generated_id :: string
  user_id :: string
  message_count :: int
  insert_succeeds :: bool
  last_failure_recent :: bool

record llm =
  model_name :: string
  model_provider :: string

text \<open>\<open>logFailedRequest\<close>: one row is inserted; a database error is caught and
  logged only. The request data is kept as the object handed to \<open>JSON.stringify\<close>.\<close>

definition logFailedRequest ::
  "call_env \<Rightarrow> js \<Rightarrow> string \<Rightarrow> string \<Rightarrow> failed_request list \<Rightarrow> failed_request list" where
  "logFailedRequest env requestData userId err table =
     (if insert_succeeds env
        then table @
          [\<lparr>fr_id = generated_id env, fr_userId = userId, fr_requestData = requestData,
            fr_timestamp = insert_time env, fr_retryCount = 0, fr_synced = False,
            fr_error = err\<rparr>]
        else table)"

text \<open>The objects that \<open>{...undefined}\<close> spreads to.\<close>

definition empty_proxySettings :: proxySettings where
  "empty_proxySettings =
     \<lparr>enabled = None, baseUrl = None, fallbackApiKeys = None, fallbackKeysExpiration = None,
      retryCount = None, lastFailure = None, useFallback = None\<rparr>"

definition empty_distributionMode :: distributionMode where
  "empty_distributionMode =
     \<lparr>hideCommercialFeatures = None, hideProButtons = None, hideExternalIntegrations = None,
      hideNavigation = None, vibeathonApiKey = None, proxySettings = None\<rparr>"

text \<open>\<open>markProxyFailed\<close>: the settings are read again, then written back with the
  failure time and the retry count reset.\<close>

definition markProxyFailed :: "string \<Rightarrow> UserSettings \<Rightarrow> UserSettings" where
  "markProxyFailed now store =
     (let dm = (case distributionMode (readSettings store) of
                  None \<Rightarrow> empty_distributionMode | Some d \<Rightarrow> d);
          ps = (case proxySettings dm of None \<Rightarrow> empty_proxySettings | Some p \<Rightarrow> p)
      in writeSettings
           \<lparr>partial_distributionMode =
              Some (dm\<lparr>proxySettings := Some (ps\<lparr>lastFailure := Some now, retryCount := Some 0\<rparr>)\<rparr>)\<rparr>
           store)"

text \<open>
  Modelled from the spec: \<open>updateRetryCount\<close>, the body of the \<open>onRetry\<close> callback,
  is not among the sources. Following the plan's comment (update retry count in
  settings) and the settings store contract, it writes the attempt number into
  \<open>retryCount\<close> the way \<open>markProxyFailed\<close> writes its fields.
\<close>

definition updateRetryCount :: "nat \<Rightarrow> UserSettings \<Rightarrow> UserSettings" where
  "updateRetryCount attempt store =
     (let dm = (case distributionMode (readSettings store) of
                  None \<Rightarrow> empty_distributionMode | Some d \<Rightarrow> d);
          ps = (case proxySettings dm of None \<Rightarrow> empty_proxySettings | Some p \<Rightarrow> p)
      in writeSettings
           \<lparr>partial_distributionMode =
              Some (dm\<lparr>proxySettings := Some (ps\<lparr>retryCount := Some (int attempt)\<rparr>)\<rparr>)\<rparr>
           store)"

text \<open>The store after the callbacks of a run, in their order.\<close>

fun apply_callbacks :: "retry_event list \<Rightarrow> UserSettings \<Rightarrow> UserSettings" where
  "apply_callbacks [] store = store"
| "apply_callbacks (OnRetry attempt e # es) store =
     apply_callbacks es (updateRetryCount attempt store)"
| "apply_callbacks (ev # es) store = apply_callbacks es store"

text \<open>The condition of the proxy block:
  \<open>proxySettings?.enabled && !proxySettings?.useFallback\<close>.\<close>

definition proxy_routing_on :: "UserSettings \<Rightarrow> bool" where
  "proxy_routing_on settings =
     (case distributionMode settings of
        None \<Rightarrow> False
      | Some dm \<Rightarrow>
          (case proxySettings dm of
             None \<Rightarrow> False
           | Some ps \<Rightarrow> enabled ps = Some True \<and> useFallback ps \<noteq> Some True))"

text \<open>Whether the settings hold a fallback credential for a provider, as
  \<open>createFallbackClient\<close> looks it up (plan, lines 356-373).\<close>

definition fallback_credential :: "UserSettings \<Rightarrow> string \<Rightarrow> js secret option" where
  "fallback_credential settings provider =
     (case distributionMode settings of
        None \<Rightarrow> None
      | Some dm \<Rightarrow>
          (case proxySettings dm of
             None \<Rightarrow> None
           | Some ps \<Rightarrow>
               (case fallbackApiKeys ps of None \<Rightarrow> None | Some keys \<Rightarrow> map_of keys provider)))"

text \<open>The test that opens the silent check of the plan, lines 621-624:
  \<open>lastFailure && new Date(lastFailure) > fiveMinutesAgo\<close>.\<close>

definition recent_failure :: "call_env \<Rightarrow> UserSettings \<Rightarrow> bool" where
  "recent_failure env settings =
     (case proxy_field lastFailure settings of
        None \<Rightarrow> False
      | Some t \<Rightarrow> t \<noteq> [] \<and> last_failure_recent env)"

text \<open>Where a call of \<open>getModelClient\<close> ends: with the proxy client, in the silent
  check after a recent failure (plan, lines 625-638: one quick test, then the fallback
  client), or in the code after the proxy block, which the plan leaves as it was.\<close>

datatype 'c routed = ProxyClient 'c | SilentCheck | ExistingLogic

datatype client_error = ProxyFailureRequiresUserAction string | Rethrown retry_error

definition failed_request_data :: "call_env \<Rightarrow> llm \<Rightarrow> js" where
  "failed_request_data env model =
     JObj [(''model'', JStr (model_name model)),
           (''provider'', JStr (model_provider model)),
           (''timestamp'', JStr (request_time env)),
           (''messageCount'', JNum (of_int (message_count env)))]"

text \<open>
  \<open>getModelClient\<close>, its proxy block. A failure recorded in the last five minutes
  leads to the silent check; otherwise the retry logic runs. The operation (create the
  proxy client and test the connection) is given by its outcome in each attempt. The
  callback is always passed. A \<open>VibeathonProxyError\<close> is logged, marked and turned
  into \<open>ProxyFailureRequiresUserAction\<close>; any other error is thrown on.
\<close>

definition getModelClient ::
  "call_env \<Rightarrow> (nat \<Rightarrow> op_error + 'c) \<Rightarrow> llm \<Rightarrow> UserSettings \<Rightarrow> app_state
     \<Rightarrow> (client_error + 'c routed) \<times> app_state" where
  "getModelClient env operation model settings st =
     (if proxy_routing_on settings then
        if recent_failure env settings then (Inr SilentCheck, st)
        else
          (case executeWithRetry operation True of
             (Inr client, tr) \<Rightarrow>
               (Inr (ProxyClient client),
                st\<lparr>settings_store := apply_callbacks tr (settings_store st)\<rparr>)
           | (Inl (VibeathonProxyError msg e), tr) \<Rightarrow>
               (Inl (ProxyFailureRequiresUserAction msg),
                \<lparr>settings_store =
                   markProxyFailed (failure_time env) (apply_callbacks tr (settings_store st)),
                 failed_requests =
                   logFailedRequest env (failed_request_data env model) (user_id env) msg
                     (failed_requests st)\<rparr>)
           | (Inl LastErrorUndefined, tr) \<Rightarrow>
               (Inl (Rethrown LastErrorUndefined),
                st\<lparr>settings_store := apply_callbacks tr (settings_store st)\<rparr>))
      else (Inr ExistingLogic, st))"

section \<open>Example inputs\<close>

text \<open>A 401 from the proxy, and a timeout.\<close>

definition unauthorized :: op_error where
  "unauthorized = \<lparr>err_kind = HttpStatus 401, err_message = ''Unauthorized''\<rparr>"

definition timed_out :: op_error where
  "timed_out = \<lparr>err_kind = TimedOut, err_message = ''timeout''\<rparr>"

text \<open>Settings with the proxy enabled, not in fallback, and a fallback credential for
  openai.\<close>

definition outage_settings :: UserSettings where
  "outage_settings =
     \<lparr>distributionMode = Some
        \<lparr>hideCommercialFeatures = Some True, hideProButtons = Some True,
         hideExternalIntegrations = Some True, hideNavigation = Some [''hub'', ''library''],
         vibeathonApiKey = Some \<lparr>secret_value = ''vk-1'', encryptionType = None\<rparr>,
         proxySettings = Some
           \<lparr>enabled = Some True, baseUrl = Some ''https://app.vibeathon.us/api/v1'',
            fallbackApiKeys = Some
              [(''openai'', \<lparr>secret_value = JStr ''sk-fallback'',
                               encryptionType = Some ''electron-safe-storage''\<rparr>)],
            fallbackKeysExpiration = Some (JStr ''2026-12-31T23:59:59Z''),
            retryCount = Some 0, lastFailure = None, useFallback = Some False\<rparr>\<rparr>,
      otherSettings = []\<rparr>"

definition outage_env :: call_env where
  "outage_env =
     \<lparr>request_time = ''2026-01-01T10:00:00Z'', insert_time = ''2026-01-01T10:00:01Z'',
      failure_time = ''2026-01-01T10:00:02Z'', generated_id = ''id-1'', user_id = ''user-1'',
      message_count = 3, insert_succeeds = True, last_failure_recent = False\<rparr>"

definition gpt4 :: llm where
  "gpt4 = \<lparr>model_name = ''gpt-4'', model_provider = ''openai''\<rparr>"

text \<open>The settings that the first \<open>initializeDistributionSettings\<close>
  (unnamed/part_006, lines 80-96) writes, with an API key entered: there is no
  \<open>proxySettings\<close> yet.\<close>

definition legacy_settings :: UserSettings where
  "legacy_settings =
     \<lparr>distributionMode = Some
        \<lparr>hideCommercialFeatures = Some True, hideProButtons = Some True,
         hideExternalIntegrations = Some True, hideNavigation = Some [''hub'', ''library''],
         vibeathonApiKey = Some \<lparr>secret_value = ''vk-1'', encryptionType = None\<rparr>,
         proxySettings = None\<rparr>,
      otherSettings = []\<rparr>"

text \<open>Two ok responses of the credentials endpoint: a regular one, and one whose
  expiration is the empty string.\<close>

definition keys_response :: response where
  "keys_response =
     \<lparr>ok = True, statusText = ''OK'',
      json_body = Some (JObj [(''openai'', JStr ''sk-fallback''),
                              (''expiration'', JStr ''2026-12-31T23:59:59Z'')])\<rparr>"

definition empty_expiration_response :: response where
  "empty_expiration_response =
     \<lparr>ok = True, statusText = ''OK'',
      json_body = Some (JObj [(''openai'', JStr ''sk-fallback''), (''expiration'', JStr [])])\<rparr>"

definition noon :: clock where
  "noon = \<lparr>date_now = ''1767261600000'', random_tail = ''k3j9x0q2a'',
            iso_now = ''2026-01-01T10:00:00.000Z''\<rparr>"

section \<open>Theorems\<close>

subsection \<open>The proxy base address\<close>

text \<open>
  C7. The two resolutions of the proxy base address return the same URL for every
  value of \<open>DYAD_DISTRIBUTION_PROXY_URL\<close> and \<open>NODE_ENV\<close>. This fails: with no
  override and \<open>NODE_ENV = development\<close> the module constant gives the \<open>http\<close>
  address and the settings module the \<open>https\<close> one.
\<close>

theorem proxy_url_resolutions_differ:
  "getVibeathonProxyUrl_utils None [(''NODE_ENV'', ''development'')]
     = ''http://app.vibeathon.test/api/v1''
   \<and> getVibeathonProxyUrl [(''NODE_ENV'', ''development'')]
     = ''https://app.vibeathon.test/api/v1''
   \<and> getVibeathonProxyUrl_utils None [(''NODE_ENV'', ''development'')]
     \<noteq> getVibeathonProxyUrl [(''NODE_ENV'', ''development'')]"
  by (simp add: getVibeathonProxyUrl_utils_def VIBEATHON_API_BASE_def
      getVibeathonProxyUrl_def env_eq_def)

subsection \<open>Telemetry\<close>

lemma run_telemetry_distribution:
  "IS_DISTRIBUTION_BUILD env \<Longrightarrow> run_telemetry env calls posthog = posthog"
proof (induction calls arbitrary: posthog)
  case Nil
  show ?case by simp
next
  case (Cons c cs)
  then show ?case
    by (cases c) (simp_all add: captureEvent_def captureException_def)
qed

text \<open>
  C9. In a distribution build \<open>captureEvent\<close> and \<open>captureException\<close> return without
  a call to the telemetry backend, for every event name, property record and error;
  \<open>isTelemetryEnabled\<close> is false; and no sequence of calls of the wrappers adds
  anything to the backend.
\<close>

theorem telemetry_off_in_distribution:
  assumes "IS_DISTRIBUTION_BUILD env"
  shows "captureEvent env eventName properties posthog = posthog
       \<and> captureException env err posthog = posthog
       \<and> isTelemetryEnabled env = False
       \<and> run_telemetry env calls posthog = posthog"
  using assms run_telemetry_distribution [OF assms]
  by (simp add: captureEvent_def captureException_def isTelemetryEnabled_def)

theorem telemetry_off_in_distribution_witness:
  "IS_DISTRIBUTION_BUILD [(''DYAD_DISTRIBUTION_BUILD'', ''true'')]
   \<and> captureEvent [(''DYAD_DISTRIBUTION_BUILD'', ''true'')] ''app:open''
        (JObj [(''version'', JStr ''1'')]) [] = []
   \<and> captureException [(''DYAD_DISTRIBUTION_BUILD'', ''true'')] TypeError [] = []
   \<and> isTelemetryEnabled [(''DYAD_DISTRIBUTION_BUILD'', ''true'')] = False
   \<and> run_telemetry [(''DYAD_DISTRIBUTION_BUILD'', ''true'')]
        [CallCaptureEvent ''chat:send'' JUndefined, CallCaptureException SyntaxError] [] = []"
proof -
  have h: "IS_DISTRIBUTION_BUILD [(''DYAD_DISTRIBUTION_BUILD'', ''true'')]"
    by (simp add: IS_DISTRIBUTION_BUILD_def env_eq_def)
  show ?thesis
    using h telemetry_off_in_distribution [OF h] by simp
qed

subsection \<open>Feature visibility gate\<close>









text \<open>
  C10. \<open>shouldHideFeature\<close> returns false for every feature key when the settings
  have no \<open>distributionMode\<close>, and returns false for every key outside the
  enumerated feature keys whatever the distribution settings are. Both hold for the
  function with six cases and for the one with the three added cases.
\<close>

theorem shouldHideFeature_false_cases:
  "(mode_of settings = None \<longrightarrow>
      shouldHideFeature settings featureKey = Some False
      \<and> shouldHideFeature_ext settings featureKey = Some False)
   \<and> (featureKey \<notin> set DISTRIBUTION_FEATURE_KEYS \<longrightarrow>
      shouldHideFeature settings featureKey = Some False)
   \<and> (featureKey \<notin> set DISTRIBUTION_FEATURE_KEYS_ext \<longrightarrow>
      shouldHideFeature_ext settings featureKey = Some False)"
  by (auto simp: shouldHideFeature_def shouldHideFeature_ext_def mode_of_def
      DISTRIBUTION_FEATURE_KEYS_def DISTRIBUTION_FEATURE_KEYS_ext_def
      split: option.splits)

theorem shouldHideFeature_false_cases_witness:
  "mode_of (Some \<lparr>distributionMode = None, otherSettings = []\<rparr>) = None
   \<and> shouldHideFeature (Some \<lparr>distributionMode = None, otherSettings = []\<rparr>) ''pro-banner''
       = Some False
   \<and> shouldHideFeature_ext (Some \<lparr>distributionMode = None, otherSettings = []\<rparr>) ''pro-banner''
       = Some False
   \<and> ''unknown-feature'' \<notin> set DISTRIBUTION_FEATURE_KEYS_ext
   \<and> shouldHideFeature (Some outage_settings) ''unknown-feature'' = Some False
   \<and> shouldHideFeature_ext (Some outage_settings) ''unknown-feature'' = Some False"
proof -
  have h1: "mode_of (Some \<lparr>distributionMode = None, otherSettings = []\<rparr>) = None"
    by (simp add: mode_of_def)
  have h2: "''unknown-feature'' \<notin> set DISTRIBUTION_FEATURE_KEYS_ext"
    and h3: "''unknown-feature'' \<notin> set DISTRIBUTION_FEATURE_KEYS"
    by (simp_all add: DISTRIBUTION_FEATURE_KEYS_ext_def DISTRIBUTION_FEATURE_KEYS_def)
  show ?thesis
    using h1 h2 h3
      shouldHideFeature_false_cases
        [of "Some \<lparr>distributionMode = None, otherSettings = []\<rparr>" "''pro-banner''"]
      shouldHideFeature_false_cases [of "Some outage_settings" "''unknown-feature''"]
    by blast
qed

subsection \<open>The fallback-credentials endpoint\<close>

lemma fetchFallbackApiKeys_resolved:
  assumes "fetch (ai_keys_request api_base apiKey) = Resolved r"
  shows "fetchFallbackApiKeys api_base fetch apiKey =
      (if \<not> ok r then Inl (Error (errorMessage r))
       else case json_body r of
           None \<Rightarrow> Inl SyntaxError
         | Some data \<Rightarrow>
            (case get_prop data ''expiration'' of
               Inl e \<Rightarrow> Inl e
             | Inr v \<Rightarrow> if truthy v then Inr data
                  else Inl (Error (JStr ''Invalid response: missing expiration date''))))"
  using assms by (simp add: fetchFallbackApiKeys_def split: option.splits sum.splits)

lemma fetchFallbackApiKeys_object:
  "fetchFallbackApiKeys api_base fetch apiKey = Inr data \<Longrightarrow> \<exists>kvs. data = JObj kvs"
  unfolding fetchFallbackApiKeys_def
  by (cases data) (auto split: fetch_outcome.splits if_splits option.splits sum.splits)

text \<open>
  C4, as the claim states it, fails: an ok response whose body has an \<open>expiration\<close>
  field holding the empty string is refused with the missing-expiration error.
\<close>

theorem fetchFallbackApiKeys_empty_expiration:
  "ok empty_expiration_response
   \<and> has_prop (the (json_body empty_expiration_response)) ''expiration''
   \<and> fetchFallbackApiKeys ''https://app.vibeathon.us/api/v1''
        (serve empty_expiration_response) ''vk-1''
       = Inl (Error (JStr ''Invalid response: missing expiration date''))"
  by (simp add: empty_expiration_response_def fetchFallbackApiKeys_def serve_def)

text \<open>
  C4, amended. For every response of the endpoint, \<open>fetchFallbackApiKeys\<close> returns
  exactly when the response is ok, its body parses as JSON and the body's
  \<open>expiration\<close> is truthy, and then it returns the parsed body (credentials and
  expiration). It throws an \<open>Error\<close> when the response is not ok, and it throws an
  \<open>Error\<close> when an ok response has no truthy \<open>expiration\<close>.
\<close>

theorem fetchFallbackApiKeys_returns_iff:
  assumes "fetch (ai_keys_request api_base apiKey) = Resolved r"
  shows "((\<exists>data. fetchFallbackApiKeys api_base fetch apiKey = Inr data)
            = (ok r \<and> (\<exists>data v. json_body r = Some data
                          \<and> get_prop data ''expiration'' = Inr v \<and> truthy v)))
       \<and> (\<forall>data. fetchFallbackApiKeys api_base fetch apiKey = Inr data
              \<longrightarrow> json_body r = Some data)
       \<and> (\<not> ok r \<longrightarrow>
              fetchFallbackApiKeys api_base fetch apiKey = Inl (Error (errorMessage r)))
       \<and> (ok r \<and> \<not> (\<exists>data v. json_body r = Some data
                          \<and> get_prop data ''expiration'' = Inr v \<and> truthy v)
              \<longrightarrow> (\<exists>e. fetchFallbackApiKeys api_base fetch apiKey = Inl e))"
  unfolding fetchFallbackApiKeys_resolved [where fetch = fetch and r = r, OF assms]
  by (auto split: option.splits sum.splits)

theorem fetchFallbackApiKeys_returns_iff_witness:
  "serve keys_response (ai_keys_request ''https://app.vibeathon.us/api/v1'' ''vk-1'')
     = Resolved keys_response
   \<and> ok keys_response
   \<and> fetchFallbackApiKeys ''https://app.vibeathon.us/api/v1'' (serve keys_response) ''vk-1''
       = Inr (JObj [(''openai'', JStr ''sk-fallback''),
                    (''expiration'', JStr ''2026-12-31T23:59:59Z'')])"
proof -
  let ?fetch = "serve keys_response"
  let ?base = "''https://app.vibeathon.us/api/v1''"
  have h: "?fetch (ai_keys_request ?base ''vk-1'') = Resolved keys_response"
    by (simp add: serve_def)
  have okr: "ok keys_response" by (simp add: keys_response_def)
  have cond: "ok keys_response \<and> (\<exists>data v. json_body keys_response = Some data
                          \<and> get_prop data ''expiration'' = Inr v \<and> truthy v)"
    by (simp add: keys_response_def)
  note inst = fetchFallbackApiKeys_returns_iff
    [where fetch = "serve keys_response" and r = keys_response, OF h]
  from inst cond
  obtain data where d: "fetchFallbackApiKeys ?base ?fetch ''vk-1'' = Inr data"
    by blast
  with inst have "json_body keys_response = Some data"
    by blast
  then have "data = JObj [(''openai'', JStr ''sk-fallback''),
                    (''expiration'', JStr ''2026-12-31T23:59:59Z'')]"
    by (simp add: keys_response_def)
  with h okr d show ?thesis by simp
qed

text \<open>
  C8. \<open>validateVibeathonApiKey\<close> never throws: for every key and every behaviour of
  the network it returns a boolean, true exactly when \<open>fetchFallbackApiKeys\<close>
  returns for that key and false exactly when it throws, whatever the error.
\<close>

theorem validateVibeathonApiKey_total:
  "(\<exists>b. validateVibeathonApiKey api_base fetch apiKey = Inr b)
   \<and> (validateVibeathonApiKey api_base fetch apiKey = Inr True)
       = (\<exists>data. fetchFallbackApiKeys api_base fetch apiKey = Inr data)
   \<and> (validateVibeathonApiKey api_base fetch apiKey = Inr False)
       = (\<exists>e. fetchFallbackApiKeys api_base fetch apiKey = Inl e)"
  by (cases "fetchFallbackApiKeys api_base fetch apiKey")
     (auto simp: validateVibeathonApiKey_def)

subsection \<open>The proxy wire format\<close>

lemma map_of_filter_snd:
  "distinct (map fst xs) \<Longrightarrow>
   map_of (filter (\<lambda>(k, v). P v) xs) k =
     (case map_of xs k of None \<Rightarrow> None | Some v \<Rightarrow> if P v then Some v else None)"
proof (induction xs)
  case Nil
  show ?case by simp
next
  case (Cons x xs)
  obtain a b where x: "x = (a, b)" by (cases x)
  from Cons.prems x have notin: "a \<notin> fst ` set xs" and d: "distinct (map fst xs)"
    by auto
  from notin have none: "map_of xs a = None"
    by (simp add: map_of_eq_None_iff)
  show ?case
    using Cons.IH [OF d] none x by (auto split: option.splits)
qed

lemma request_literal_keys:
  "map fst (request_literal clk model messages options) =
     [''model'', ''messages'', ''stream'', ''max_tokens'', ''temperature'', ''top_p'',
      ''frequency_penalty'', ''presence_penalty'', ''stop'', ''metadata'']"
  by (simp add: request_literal_def)

lemma request_literal_distinct:
  "distinct (map fst (request_literal clk model messages options))"
  by (simp add: request_literal_keys)

text \<open>
  C5. For every model name, message list and options object (an omitted options
  argument included), \<open>transformToOpenAIFormat\<close> returns a request in which
  \<open>model\<close>, \<open>messages\<close>, \<open>stream\<close> and \<open>metadata\<close> are present, no field holds
  undefined, every field of the literal whose value is undefined is absent, and every
  other field of the literal is kept with its value.
\<close>

theorem transformToOpenAIFormat_shape:
  assumes "options \<noteq> JNull"
  shows "\<exists>req. transformToOpenAIFormat clk model messages options = Inr req
      \<and> map_of req ''model'' = Some (JStr model)
      \<and> map_of req ''messages'' = Some (JArr messages)
      \<and> (\<exists>b. map_of req ''stream'' = Some b \<and> b \<noteq> JUndefined)
      \<and> (\<exists>m. map_of req ''metadata'' = Some (JObj m))
      \<and> (\<forall>k. map_of req k \<noteq> Some JUndefined)
      \<and> (\<forall>k. map_of (request_literal clk model messages
                 (if options = JUndefined then JObj [] else options)) k = Some JUndefined
            \<longrightarrow> map_of req k = None)
      \<and> (\<forall>k v. v \<noteq> JUndefined \<longrightarrow> map_of (request_literal clk model messages
                 (if options = JUndefined then JObj [] else options)) k = Some v
            \<longrightarrow> map_of req k = Some v)"
proof -
  let ?lit = "request_literal clk model messages
                 (if options = JUndefined then JObj [] else options)"
  let ?req = "filter (\<lambda>(k, val). val \<noteq> JUndefined) ?lit"
  have r: "transformToOpenAIFormat clk model messages options = Inr ?req"
    using assms by (simp add: transformToOpenAIFormat_def)
  have m: "\<And>k. map_of ?req k =
      (case map_of ?lit k of None \<Rightarrow> None
       | Some v \<Rightarrow> if v \<noteq> JUndefined then Some v else None)"
    by (rule map_of_filter_snd) (rule request_literal_distinct)
  have l1: "map_of ?lit ''model'' = Some (JStr model)"
    by (simp add: request_literal_def)
  have l2: "map_of ?lit ''messages'' = Some (JArr messages)"
    by (simp add: request_literal_def)
  have l3: "\<exists>b. map_of ?lit ''stream'' = Some b \<and> b \<noteq> JUndefined"
    by (simp add: request_literal_def nullish_def)
  have l4: "\<exists>m. map_of ?lit ''metadata'' = Some (JObj m)"
    by (simp add: request_literal_def)
  have c1: "map_of ?req ''model'' = Some (JStr model)" using l1 by (simp add: m)
  have c2: "map_of ?req ''messages'' = Some (JArr messages)" using l2 by (simp add: m)
  have c3: "\<exists>b. map_of ?req ''stream'' = Some b \<and> b \<noteq> JUndefined"
    using l3 by (auto simp: m)
  have c4: "\<exists>m. map_of ?req ''metadata'' = Some (JObj m)" using l4 by (auto simp: m)
  have c5: "\<forall>k. map_of ?req k \<noteq> Some JUndefined"
    by (auto simp: m split: option.splits)
  have c6: "\<forall>k. map_of ?lit k = Some JUndefined \<longrightarrow> map_of ?req k = None"
    by (auto simp: m)
  have c7: "\<forall>k v. v \<noteq> JUndefined \<longrightarrow> map_of ?lit k = Some v \<longrightarrow> map_of ?req k = Some v"
    by (auto simp: m)
  show ?thesis using r c1 c2 c3 c4 c5 c6 c7 by blast
qed

theorem transformToOpenAIFormat_shape_witness:
  "JObj [(''maxTokens'', JNum 256)] \<noteq> JNull
   \<and> (\<exists>req. transformToOpenAIFormat noon ''gpt-4''
               [JObj [(''role'', JStr ''user''), (''content'', JStr ''hi'')]]
               (JObj [(''maxTokens'', JNum 256)]) = Inr req
        \<and> map_of req ''model'' = Some (JStr ''gpt-4'')
        \<and> map_of req ''messages''
            = Some (JArr [JObj [(''role'', JStr ''user''), (''content'', JStr ''hi'')]])
        \<and> map_of req ''max_tokens'' = Some (JNum 256)
        \<and> map_of req ''top_p'' = None
        \<and> (\<exists>b. map_of req ''stream'' = Some b \<and> b \<noteq> JUndefined)
        \<and> (\<exists>m. map_of req ''metadata'' = Some (JObj m)))"
proof -
  let ?opts = "JObj [(''maxTokens'', JNum 256)]"
  let ?msgs = "[JObj [(''role'', JStr ''user''), (''content'', JStr ''hi'')]]"
  let ?lit = "request_literal noon ''gpt-4'' ?msgs (if ?opts = JUndefined then JObj [] else ?opts)"
  have h: "?opts \<noteq> JNull" by simp
  have a: "map_of ?lit ''max_tokens'' = Some (JNum 256)"
    by (simp add: request_literal_def field_def js_or_def)
  have b: "map_of ?lit ''top_p'' = Some JUndefined"
    by (simp add: request_literal_def field_def)
  have n: "JNum 256 \<noteq> JUndefined" by simp
  from transformToOpenAIFormat_shape [OF h, of noon "''gpt-4''" ?msgs] a b n h
  show ?thesis by blast
qed

subsection \<open>Storing the fallback credentials\<close>

lemma fetchVibeathonFallbackKeys_error:
  assumes "fetchVibeathonFallbackKeys api_base fetch store = (Inl e, store')"
  shows "store' = store"
  using assms unfolding fetchVibeathonFallbackKeys_def
  by (simp split: option.splits if_splits sum.splits)

lemma fetchVibeathonFallbackKeys_success:
  assumes "fetchVibeathonFallbackKeys api_base fetch store = (Inr u, store')"
  shows "\<exists>dm apiKeys. distributionMode store = Some dm
      \<and> store' = store\<lparr>distributionMode := Some (written_distributionMode dm apiKeys)\<rparr>"
  using assms unfolding fetchVibeathonFallbackKeys_def readSettings_def writeSettings_def
  by (auto split: option.splits if_splits sum.splits)

lemma default_spread: "spread_over (Some (nullish_opt x d)) x = Some (nullish_opt x d)"
  by (cases x) (simp_all add: spread_over_def nullish_opt_def)

lemma written_distributionMode_fields:
  "hideCommercialFeatures (written_distributionMode dm k)
     = Some (nullish_opt (hideCommercialFeatures dm) False)"
  "hideProButtons (written_distributionMode dm k) = Some (nullish_opt (hideProButtons dm) False)"
  "hideExternalIntegrations (written_distributionMode dm k)
     = Some (nullish_opt (hideExternalIntegrations dm) False)"
  "hideNavigation (written_distributionMode dm k) = Some (nullish_opt (hideNavigation dm) [])"
  "vibeathonApiKey (written_distributionMode dm k) = vibeathonApiKey dm"
  "proxySettings (written_distributionMode dm k)
     = Some (written_proxySettings (proxySettings dm) k)"
  by (simp_all add: written_distributionMode_def default_spread)

lemma written_proxySettings_fields:
  "enabled (written_proxySettings ps k) = Some (nullish_opt (Option.bind ps enabled) False)"
  "retryCount (written_proxySettings ps k) = Some (nullish_opt (Option.bind ps retryCount) 0)"
  "useFallback (written_proxySettings ps k)
     = Some (nullish_opt (Option.bind ps useFallback) False)"
  "baseUrl (written_proxySettings ps k) = Option.bind ps baseUrl"
  "lastFailure (written_proxySettings ps k) = Option.bind ps lastFailure"
  by (simp_all add: written_proxySettings_def default_spread)

lemma fetchVibeathonFallbackKeys_legacy:
  "fetchVibeathonFallbackKeys ''https://app.vibeathon.us/api/v1'' (serve keys_response)
     legacy_settings
   = (Inr (),
      legacy_settings\<lparr>distributionMode :=
        Some (written_distributionMode (the (distributionMode legacy_settings))
               (the (json_body keys_response)))\<rparr>)"
  by (simp add: fetchVibeathonFallbackKeys_def readSettings_def writeSettings_def
      legacy_settings_def fetchFallbackApiKeys_def serve_def keys_response_def)

text \<open>
  C6, as the claim states it, fails: with settings that have no \<open>proxySettings\<close> yet,
  \<open>enabled\<close>, \<open>retryCount\<close> and \<open>useFallback\<close> are undefined when read and hold
  \<open>false\<close>, \<open>0\<close> and \<open>false\<close> after the write.
\<close>

theorem fetchVibeathonFallbackKeys_writes_defaults:
  "proxy_field enabled legacy_settings = None
   \<and> proxy_field retryCount legacy_settings = None
   \<and> proxy_field useFallback legacy_settings = None
   \<and> fst (fetchVibeathonFallbackKeys ''https://app.vibeathon.us/api/v1''
            (serve keys_response) legacy_settings) = Inr ()
   \<and> proxy_field enabled
        (snd (fetchVibeathonFallbackKeys ''https://app.vibeathon.us/api/v1''
               (serve keys_response) legacy_settings)) = Some False
   \<and> proxy_field retryCount
        (snd (fetchVibeathonFallbackKeys ''https://app.vibeathon.us/api/v1''
               (serve keys_response) legacy_settings)) = Some 0
   \<and> proxy_field useFallback
        (snd (fetchVibeathonFallbackKeys ''https://app.vibeathon.us/api/v1''
               (serve keys_response) legacy_settings)) = Some False"
  unfolding fetchVibeathonFallbackKeys_legacy
  by (simp add: proxy_field_def written_distributionMode_fields written_proxySettings_fields
      nullish_opt_def legacy_settings_def)

text \<open>
  C6, amended. \<open>fetchVibeathonFallbackKeys\<close> leaves the settings untouched when it
  throws. When it returns, the settings outside \<open>distributionMode\<close>, and
  \<open>vibeathonApiKey\<close>, \<open>baseUrl\<close> and \<open>lastFailure\<close>, are as they were read; each of
  \<open>hideCommercialFeatures\<close>, \<open>hideProButtons\<close>, \<open>hideExternalIntegrations\<close>,
  \<open>hideNavigation\<close>, \<open>enabled\<close>, \<open>retryCount\<close> and \<open>useFallback\<close> holds the
  value that was read where one was defined, and its default (\<open>false\<close>, \<open>[]\<close>, \<open>0\<close>)
  where it was undefined.
\<close>

theorem fetchVibeathonFallbackKeys_frame:
  assumes "fetchVibeathonFallbackKeys api_base fetch store = (res, store')"
  shows "(res \<noteq> Inr () \<longrightarrow> store' = store)
      \<and> (res = Inr () \<longrightarrow>
            otherSettings store' = otherSettings store
          \<and> mode_field vibeathonApiKey store' = mode_field vibeathonApiKey store
          \<and> mode_field hideCommercialFeatures store'
              = Some (nullish_opt (mode_field hideCommercialFeatures store) False)
          \<and> mode_field hideProButtons store'
              = Some (nullish_opt (mode_field hideProButtons store) False)
          \<and> mode_field hideExternalIntegrations store'
              = Some (nullish_opt (mode_field hideExternalIntegrations store) False)
          \<and> mode_field hideNavigation store'
              = Some (nullish_opt (mode_field hideNavigation store) [])
          \<and> proxy_field enabled store' = Some (nullish_opt (proxy_field enabled store) False)
          \<and> proxy_field retryCount store' = Some (nullish_opt (proxy_field retryCount store) 0)
          \<and> proxy_field useFallback store'
              = Some (nullish_opt (proxy_field useFallback store) False)
          \<and> proxy_field baseUrl store' = proxy_field baseUrl store
          \<and> proxy_field lastFailure store' = proxy_field lastFailure store)"
proof (cases res)
  case (Inl e)
  with assms have "store' = store"
    by (simp add: fetchVibeathonFallbackKeys_error)
  with Inl show ?thesis by simp
next
  case (Inr u)
  with assms obtain dm apiKeys where dm: "distributionMode store = Some dm"
    and st: "store' = store\<lparr>distributionMode := Some (written_distributionMode dm apiKeys)\<rparr>"
    using fetchVibeathonFallbackKeys_success by blast
  have "distributionMode store' = Some (written_distributionMode dm apiKeys)"
    and "otherSettings store' = otherSettings store"
    using st by simp_all
  then show ?thesis
    using Inr dm
    by (simp add: mode_field_def proxy_field_def written_distributionMode_fields
        written_proxySettings_fields)
qed

theorem fetchVibeathonFallbackKeys_frame_witness:
  "fst (fetchVibeathonFallbackKeys ''https://app.vibeathon.us/api/v1''
          (serve keys_response) outage_settings) = Inr ()
   \<and> proxy_field enabled
        (snd (fetchVibeathonFallbackKeys ''https://app.vibeathon.us/api/v1''
               (serve keys_response) outage_settings)) = Some True
   \<and> proxy_field useFallback
        (snd (fetchVibeathonFallbackKeys ''https://app.vibeathon.us/api/v1''
               (serve keys_response) outage_settings)) = Some False
   \<and> proxy_field baseUrl
        (snd (fetchVibeathonFallbackKeys ''https://app.vibeathon.us/api/v1''
               (serve keys_response) outage_settings))
       = Some ''https://app.vibeathon.us/api/v1''
   \<and> mode_field hideNavigation
        (snd (fetchVibeathonFallbackKeys ''https://app.vibeathon.us/api/v1''
               (serve keys_response) outage_settings)) = Some [''hub'', ''library'']"
proof -
  let ?run = "fetchVibeathonFallbackKeys ''https://app.vibeathon.us/api/v1''
                (serve keys_response) outage_settings"
  have res: "fst ?run = Inr ()"
    by (simp add: fetchVibeathonFallbackKeys_def readSettings_def writeSettings_def
        outage_settings_def fetchFallbackApiKeys_def serve_def keys_response_def)
  have h: "?run = (fst ?run, snd ?run)" by simp
  have before: "proxy_field enabled outage_settings = Some True"
    "proxy_field useFallback outage_settings = Some False"
    "proxy_field baseUrl outage_settings = Some ''https://app.vibeathon.us/api/v1''"
    "mode_field hideNavigation outage_settings = Some [''hub'', ''library'']"
    by (simp_all add: proxy_field_def mode_field_def outage_settings_def)
  from fetchVibeathonFallbackKeys_frame [OF h] res before
  show ?thesis by (simp add: nullish_opt_def)
qed

subsection \<open>Retry with backoff\<close>

lemma invocations_append: "invocations (xs @ ys) = invocations xs @ invocations ys"
  by (induction xs rule: invocations.induct) simp_all

lemma sleeps_append: "sleeps (xs @ ys) = sleeps xs @ sleeps ys"
  by (induction xs rule: sleeps.induct) simp_all

lemma schedule_append: "schedule (xs @ ys) = schedule xs @ schedule ys"
  by (induction xs rule: schedule.induct) simp_all

lemma retry_loop_exhausted:
  "retry_loop operation onRetry (Suc MAX_RETRIES) (Some e) tr = (Inl (exhausted_error e), tr)"
  by (subst retry_loop.simps) simp

lemma retry_loop_success:
  "attempt \<le> MAX_RETRIES \<Longrightarrow> operation attempt = Inr v \<Longrightarrow>
   retry_loop operation onRetry attempt lastError tr = (Inr v, tr @ [Invoked attempt])"
  by (subst retry_loop.simps) simp

lemma retry_loop_failure:
  "attempt \<le> MAX_RETRIES \<Longrightarrow> operation attempt = Inl err \<Longrightarrow>
   retry_loop operation onRetry attempt lastError tr =
     retry_loop operation onRetry (Suc attempt) (Some err)
       (tr @ [Invoked attempt]
           @ (if onRetry then [OnRetry attempt err] else [])
           @ (if attempt < MAX_RETRIES then [Slept (backoff attempt)] else []))"
  by (subst retry_loop.simps) simp

text \<open>
  The loop entered at attempt \<open>a\<close> makes the attempts \<open>a, ..., j\<close> for some
  \<open>j \<le> MAX_RETRIES\<close>: all but the last fail and are followed by their backoff sleep,
  and the last one either succeeds or is the failing attempt number \<open>MAX_RETRIES\<close>.
  Induction on the number of attempts left.
\<close>

lemma retry_loop_run:
  assumes "d = MAX_RETRIES - a" and "a \<le> MAX_RETRIES"
      and "retry_loop operation onRetry a lastError tr = (res, tr')"
  shows "\<exists>j. a \<le> j \<and> j \<le> MAX_RETRIES
      \<and> invocations tr' = invocations tr @ [a..<Suc j]
      \<and> sleeps tr' = sleeps tr @ map backoff [a..<j]
      \<and> schedule tr' = schedule tr @ concat (map failed_round [a..<j]) @ [Invoked j]
      \<and> (\<forall>n. a \<le> n \<and> n < j \<longrightarrow> isl (operation n))
      \<and> (case res of
            Inr v \<Rightarrow> operation j = Inr v
          | Inl x \<Rightarrow> j = MAX_RETRIES \<and>
              (\<exists>e. operation MAX_RETRIES = Inl e \<and> x = exhausted_error e))"
  using assms
proof (induction d arbitrary: a lastError tr)
  case 0
  then have a: "a = MAX_RETRIES" by simp
  show ?case
  proof (cases "operation a")
    case (Inr v)
    with 0 have "res = Inr v" "tr' = tr @ [Invoked a]"
      by (simp_all add: retry_loop_success)
    with Inr a show ?thesis
      by (intro exI [of _ a]) (auto simp: invocations_append sleeps_append schedule_append)
  next
    case (Inl err)
    with 0 a have "(Inl (exhausted_error err),
        tr @ [Invoked a] @ (if onRetry then [OnRetry a err] else [])) = (res, tr')"
      by (auto simp add: retry_loop_failure retry_loop_exhausted)
    then have "res = Inl (exhausted_error err)"
      and "tr' = tr @ [Invoked a] @ (if onRetry then [OnRetry a err] else [])"
      by simp_all
    with Inl a show ?thesis
      by (intro exI [of _ a]) (auto simp: invocations_append sleeps_append schedule_append)
  qed
next
  case (Suc d)
  then have lt: "a < MAX_RETRIES" and d: "d = MAX_RETRIES - Suc a" by simp_all
  show ?case
  proof (cases "operation a")
    case (Inr v)
    with Suc.prems have "res = Inr v" "tr' = tr @ [Invoked a]"
      by (simp_all add: retry_loop_success)
    with Inr lt show ?thesis
      by (intro exI [of _ a]) (auto simp: invocations_append sleeps_append schedule_append)
  next
    case (Inl err)
    let ?tr = "tr @ [Invoked a] @ (if onRetry then [OnRetry a err] else [])
                 @ [Slept (backoff a)]"
    from Inl Suc.prems lt
    have run: "retry_loop operation onRetry (Suc a) (Some err) ?tr = (res, tr')"
      by (simp add: retry_loop_failure)
    from lt have le: "Suc a \<le> MAX_RETRIES" by simp
    from Suc.IH [OF d le run] obtain j where j: "Suc a \<le> j" "j \<le> MAX_RETRIES"
      and inv: "invocations tr' = invocations ?tr @ [Suc a..<Suc j]"
      and sl: "sleeps tr' = sleeps ?tr @ map backoff [Suc a..<j]"
      and sch: "schedule tr' = schedule ?tr @ concat (map failed_round [Suc a..<j]) @ [Invoked j]"
      and fails: "\<forall>n. Suc a \<le> n \<and> n < j \<longrightarrow> isl (operation n)"
      and res: "(case res of
            Inr v \<Rightarrow> operation j = Inr v
          | Inl x \<Rightarrow> j = MAX_RETRIES \<and>
              (\<exists>e. operation MAX_RETRIES = Inl e \<and> x = exhausted_error e))"
      by blast
    from j have up: "[a..<Suc j] = a # [Suc a..<Suc j]" "[a..<j] = a # [Suc a..<j]"
      by (simp_all add: upt_conv_Cons)
    have inv': "invocations tr' = invocations tr @ [a..<Suc j]"
      using inv up by (simp add: invocations_append)
    have sl': "sleeps tr' = sleeps tr @ map backoff [a..<j]"
      using sl up by (simp add: sleeps_append)
    have sch': "schedule tr' = schedule tr @ concat (map failed_round [a..<j]) @ [Invoked j]"
      using sch up by (simp add: schedule_append failed_round_def)
    have fails': "\<forall>n. a \<le> n \<and> n < j \<longrightarrow> isl (operation n)"
    proof (intro allI impI)
      fix n assume n: "a \<le> n \<and> n < j"
      show "isl (operation n)"
      proof (cases "n = a")
        case True
        with Inl show ?thesis by simp
      next
        case False
        with n have "Suc a \<le> n \<and> n < j" by simp
        with fails show ?thesis by blast
      qed
    qed
    from j have "a \<le> j" by simp
    with j(2) inv' sl' sch' fails' res show ?thesis by blast
  qed
qed

lemma unauthorized_run:
  "executeWithRetry (always_fails unauthorized) False
   = (Inl (exhausted_error unauthorized),
      [Invoked 1, Slept 1000, Invoked 2, Slept 2000, Invoked 3, Slept 4000, Invoked 4,
       Slept 8000, Invoked 5, Slept 16000, Invoked 6, Slept 32000, Invoked 7, Slept 64000,
       Invoked 8, Slept 128000, Invoked 9, Slept 256000, Invoked 10])"
  by (simp add: executeWithRetry_def always_fails_def retry_loop.simps MAX_RETRIES_def
      BASE_DELAY_def backoff_def)

text \<open>
  C1, as the claim states it, fails: a 401, which the specification classifies as
  non-retryable, is retried like any other failure, ten attempts in all, and the last
  delay is 256 seconds, with no cap applied.
\<close>

theorem executeWithRetry_retries_unauthorized:
  "retryable (err_kind unauthorized) = False
   \<and> invocations (snd (executeWithRetry (always_fails unauthorized :: nat \<Rightarrow> op_error + unit)
        False)) = [1, 2, 3, 4, 5, 6, 7, 8, 9, 10]
   \<and> sleeps (snd (executeWithRetry (always_fails unauthorized :: nat \<Rightarrow> op_error + unit)
        False)) = [1000, 2000, 4000, 8000, 16000, 32000, 64000, 128000, 256000]"
  unfolding unauthorized_run by (simp add: unauthorized_def)

text \<open>
  C1, amended. For every proxy operation, whatever the classification of its
  failures, \<open>executeWithRetry\<close> makes the attempts \<open>1, ..., j\<close> for some
  \<open>j \<le> MAX_RETRIES = 10\<close>, one after the other; every attempt before the last fails
  and is followed by a sleep of \<open>BASE_DELAY * 2 ^ (attempt - 1)\<close> milliseconds, with
  no cap; the run ends with the result of attempt \<open>j\<close> if that succeeds, and
  otherwise \<open>j = 10\<close> and the error of the tenth attempt is thrown wrapped in
  \<open>VibeathonProxyError\<close>. No failure ends the run before the tenth attempt.
\<close>

theorem executeWithRetry_backoff:
  assumes "executeWithRetry operation onRetry = (res, tr)"
  shows "\<exists>j. 1 \<le> j \<and> j \<le> MAX_RETRIES
      \<and> invocations tr = [1..<Suc j]
      \<and> sleeps tr = map backoff [1..<j]
      \<and> schedule tr = concat (map failed_round [1..<j]) @ [Invoked j]
      \<and> (\<forall>n. 1 \<le> n \<and> n < j \<longrightarrow> isl (operation n))
      \<and> (case res of
            Inr v \<Rightarrow> operation j = Inr v
          | Inl x \<Rightarrow> j = MAX_RETRIES \<and>
              (\<exists>e. operation MAX_RETRIES = Inl e \<and> x = exhausted_error e))"
proof -
  have le: "1 \<le> MAX_RETRIES" by (simp add: MAX_RETRIES_def)
  from assms have run: "retry_loop operation onRetry 1 None [] = (res, tr)"
    by (simp add: executeWithRetry_def)
  from retry_loop_run [OF refl le run] show ?thesis by simp
qed

theorem executeWithRetry_backoff_witness:
  "executeWithRetry (always_fails timed_out :: nat \<Rightarrow> op_error + unit) True
     = (fst (executeWithRetry (always_fails timed_out :: nat \<Rightarrow> op_error + unit) True),
        snd (executeWithRetry (always_fails timed_out :: nat \<Rightarrow> op_error + unit) True))
   \<and> (\<exists>j. 1 \<le> j \<and> j \<le> MAX_RETRIES
        \<and> invocations (snd (executeWithRetry
              (always_fails timed_out :: nat \<Rightarrow> op_error + unit) True)) = [1..<Suc j]
        \<and> sleeps (snd (executeWithRetry
              (always_fails timed_out :: nat \<Rightarrow> op_error + unit) True)) = map backoff [1..<j])"
proof -
  let ?run = "executeWithRetry (always_fails timed_out :: nat \<Rightarrow> op_error + unit) True"
  have h: "?run = (fst ?run, snd ?run)" by simp
  from executeWithRetry_backoff [OF h] obtain j where "1 \<le> j" "j \<le> MAX_RETRIES"
    "invocations (snd ?run) = [1..<Suc j]" "sleeps (snd ?run) = map backoff [1..<j]"
    by blast
  with h show ?thesis by blast
qed

subsection \<open>Exhausted retries in the model client factory\<close>

lemma updateRetryCount_fields:
  "proxy_field useFallback (updateRetryCount n store) = proxy_field useFallback store"
  "proxy_field enabled (updateRetryCount n store) = proxy_field enabled store"
  "proxy_field fallbackApiKeys (updateRetryCount n store) = proxy_field fallbackApiKeys store"
  by (simp_all add: proxy_field_def updateRetryCount_def readSettings_def writeSettings_def
      Let_def empty_distributionMode_def empty_proxySettings_def split: option.splits)

lemma apply_callbacks_fields:
  "proxy_field useFallback (apply_callbacks tr store) = proxy_field useFallback store"
  "proxy_field enabled (apply_callbacks tr store) = proxy_field enabled store"
  "proxy_field fallbackApiKeys (apply_callbacks tr store) = proxy_field fallbackApiKeys store"
  by (induction tr store rule: apply_callbacks.induct) (simp_all add: updateRetryCount_fields)

lemma markProxyFailed_fields:
  "proxy_field lastFailure (markProxyFailed now store) = Some now"
  "proxy_field retryCount (markProxyFailed now store) = Some 0"
  "proxy_field useFallback (markProxyFailed now store) = proxy_field useFallback store"
  "proxy_field enabled (markProxyFailed now store) = proxy_field enabled store"
  "proxy_field fallbackApiKeys (markProxyFailed now store) = proxy_field fallbackApiKeys store"
  by (simp_all add: proxy_field_def markProxyFailed_def readSettings_def writeSettings_def
      Let_def empty_distributionMode_def empty_proxySettings_def split: option.splits)

lemma fallback_credential_field:
  "fallback_credential s p =
     (case proxy_field fallbackApiKeys s of None \<Rightarrow> None | Some keys \<Rightarrow> map_of keys p)"
  by (simp add: fallback_credential_def proxy_field_def split: option.splits)

lemma executeWithRetry_exhausted:
  assumes "\<forall>n. 1 \<le> n \<and> n \<le> MAX_RETRIES \<longrightarrow> isl (operation n)"
  shows "\<exists>e tr. operation MAX_RETRIES = Inl e
      \<and> executeWithRetry operation onRetry = (Inl (exhausted_error e), tr)"
proof -
  obtain res tr where run: "retry_loop operation onRetry 1 None [] = (res, tr)"
    by (cases "retry_loop operation onRetry 1 None []")
  have le: "1 \<le> MAX_RETRIES" by (simp add: MAX_RETRIES_def)
  from retry_loop_run [OF refl le run] obtain j where j: "1 \<le> j" "j \<le> MAX_RETRIES"
    and res: "(case res of
            Inr v \<Rightarrow> operation j = Inr v
          | Inl x \<Rightarrow> j = MAX_RETRIES \<and>
              (\<exists>e. operation MAX_RETRIES = Inl e \<and> x = exhausted_error e))"
    by blast
  from assms j have "isl (operation j)" by blast
  with res obtain e where "operation MAX_RETRIES = Inl e" "res = Inl (exhausted_error e)"
    by (cases res) auto
  with run show ?thesis by (auto simp: executeWithRetry_def)
qed

lemma getModelClient_after_exhaustion:
  assumes "proxy_routing_on settings" and "\<not> recent_failure env settings"
      and "\<forall>n. 1 \<le> n \<and> n \<le> MAX_RETRIES \<longrightarrow> isl (operation n)"
      and "getModelClient env operation model settings st = (res, st')"
  shows "\<exists>e. operation MAX_RETRIES = Inl e
      \<and> res = Inl (ProxyFailureRequiresUserAction
                 (''Failed after 10 attempts: '' @ err_message e))
      \<and> failed_requests st' =
          logFailedRequest env (failed_request_data env model) (user_id env)
            (''Failed after 10 attempts: '' @ err_message e) (failed_requests st)
      \<and> length (failed_requests st') =
          length (failed_requests st) + (if insert_succeeds env then 1 else 0)
      \<and> proxy_field lastFailure (settings_store st') = Some (failure_time env)
      \<and> proxy_field retryCount (settings_store st') = Some 0
      \<and> proxy_field useFallback (settings_store st')
          = proxy_field useFallback (settings_store st)
      \<and> fallback_credential (settings_store st') (model_provider model)
          = fallback_credential (settings_store st) (model_provider model)"
proof -
  from executeWithRetry_exhausted [OF assms(3)] obtain e tr
    where e: "operation MAX_RETRIES = Inl e"
      and run: "executeWithRetry operation True = (Inl (exhausted_error e), tr)"
    by blast
  let ?msg = "''Failed after 10 attempts: '' @ err_message e"
  let ?store = "markProxyFailed (failure_time env) (apply_callbacks tr (settings_store st))"
  from assms(1,2,4) run
  have res: "res = Inl (ProxyFailureRequiresUserAction ?msg)"
    and st': "st' = \<lparr>settings_store = ?store,
               failed_requests = logFailedRequest env (failed_request_data env model)
                 (user_id env) ?msg (failed_requests st)\<rparr>"
    by (auto simp: getModelClient_def exhausted_error_def)
  have led: "failed_requests st' = logFailedRequest env (failed_request_data env model)
                 (user_id env) ?msg (failed_requests st)"
    and sto: "settings_store st' = ?store"
    using st' by simp_all
  have len: "length (failed_requests st') =
          length (failed_requests st) + (if insert_succeeds env then 1 else 0)"
    using led by (simp add: logFailedRequest_def)
  have f1: "proxy_field lastFailure (settings_store st') = Some (failure_time env)"
    and f2: "proxy_field retryCount (settings_store st') = Some 0"
    and f3: "proxy_field useFallback (settings_store st')
          = proxy_field useFallback (settings_store st)"
    and f4: "proxy_field fallbackApiKeys (settings_store st')
          = proxy_field fallbackApiKeys (settings_store st)"
    using sto by (simp_all add: markProxyFailed_fields apply_callbacks_fields)
  have f5: "fallback_credential (settings_store st') (model_provider model)
          = fallback_credential (settings_store st) (model_provider model)"
    by (simp add: fallback_credential_field f4)
  from e res led len f1 f2 f3 f5 show ?thesis by blast
qed

lemma outage_preconditions:
  "proxy_routing_on outage_settings"
  "\<not> recent_failure outage_env outage_settings"
  "\<forall>n. 1 \<le> n \<and> n \<le> MAX_RETRIES \<longrightarrow> isl (always_fails timed_out n)"
  "fallback_credential outage_settings ''openai''
     = Some \<lparr>secret_value = JStr ''sk-fallback'',
             encryptionType = Some ''electron-safe-storage''\<rparr>"
  "proxy_field useFallback outage_settings = Some False"
  by (simp_all add: proxy_routing_on_def outage_settings_def always_fails_def
      fallback_credential_def proxy_field_def recent_failure_def)

text \<open>
  C2, as the claim states it, fails: with the proxy enabled, a fallback credential
  stored for the model's provider and every one of the ten attempts timing out,
  \<open>getModelClient\<close> throws \<open>ProxyFailureRequiresUserAction\<close> instead of returning
  a fallback client, leaves \<open>useFallback\<close> false and resets \<open>retryCount\<close> to 0
  instead of incrementing it.
\<close>

theorem getModelClient_exhausted_no_fallback:
  "proxy_routing_on outage_settings
   \<and> recent_failure outage_env outage_settings = False
   \<and> model_provider gpt4 = ''openai''
   \<and> fallback_credential outage_settings ''openai''
       = Some \<lparr>secret_value = JStr ''sk-fallback'',
               encryptionType = Some ''electron-safe-storage''\<rparr>
   \<and> fst (getModelClient outage_env (always_fails timed_out :: nat \<Rightarrow> op_error + unit) gpt4
            outage_settings \<lparr>settings_store = outage_settings, failed_requests = []\<rparr>)
       = Inl (ProxyFailureRequiresUserAction ''Failed after 10 attempts: timeout'')
   \<and> proxy_field useFallback (settings_store (snd
         (getModelClient outage_env (always_fails timed_out :: nat \<Rightarrow> op_error + unit) gpt4
            outage_settings \<lparr>settings_store = outage_settings, failed_requests = []\<rparr>)))
       = Some False
   \<and> proxy_field retryCount (settings_store (snd
         (getModelClient outage_env (always_fails timed_out :: nat \<Rightarrow> op_error + unit) gpt4
            outage_settings \<lparr>settings_store = outage_settings, failed_requests = []\<rparr>)))
       = Some 0"
proof -
  let ?st = "\<lparr>settings_store = outage_settings, failed_requests = []\<rparr>"
  let ?run = "getModelClient outage_env (always_fails timed_out :: nat \<Rightarrow> op_error + unit)
                gpt4 outage_settings ?st"
  have h: "?run = (fst ?run, snd ?run)" by simp
  from getModelClient_after_exhaustion [OF outage_preconditions(1,2,3) h]
  obtain e where e: "always_fails timed_out MAX_RETRIES = (Inl e :: op_error + unit)"
    and res: "fst ?run = Inl (ProxyFailureRequiresUserAction
                 (''Failed after 10 attempts: '' @ err_message e))"
    and rc: "proxy_field retryCount (settings_store (snd ?run)) = Some 0"
    and uf: "proxy_field useFallback (settings_store (snd ?run))
          = proxy_field useFallback (settings_store ?st)"
    by blast
  from e have "e = timed_out" by (simp add: always_fails_def)
  with res have res': "fst ?run
      = Inl (ProxyFailureRequiresUserAction ''Failed after 10 attempts: timeout'')"
    by (simp add: timed_out_def)
  from uf have uf': "proxy_field useFallback (settings_store (snd ?run)) = Some False"
    by (simp add: outage_preconditions(5))
  have p: "model_provider gpt4 = ''openai''" by (simp add: gpt4_def)
  from outage_preconditions(1,2,4) p res' uf' rc show ?thesis by simp
qed

text \<open>
  C2, amended. For every request whose ten attempts all fail while proxy routing is
  on and no failure was recorded in the last five minutes, \<open>getModelClient\<close> throws \<open>ProxyFailureRequiresUserAction\<close> with the message
  of the tenth failure, whether or not a fallback credential exists; it inserts exactly
  one failed-request row (none if the insert fails), sets \<open>lastFailure\<close> to the
  current time and \<open>retryCount\<close> to 0, and leaves \<open>useFallback\<close> and the fallback
  credentials as they were.
\<close>

theorem getModelClient_exhausted:
  assumes "proxy_routing_on settings" and "\<not> recent_failure env settings"
      and "\<forall>n. 1 \<le> n \<and> n \<le> MAX_RETRIES \<longrightarrow> isl (operation n)"
      and "getModelClient env operation model settings st = (res, st')"
  shows "\<exists>e. operation MAX_RETRIES = Inl e
      \<and> res = Inl (ProxyFailureRequiresUserAction
                 (''Failed after 10 attempts: '' @ err_message e))
      \<and> failed_requests st' =
          logFailedRequest env (failed_request_data env model) (user_id env)
            (''Failed after 10 attempts: '' @ err_message e) (failed_requests st)
      \<and> length (failed_requests st') =
          length (failed_requests st) + (if insert_succeeds env then 1 else 0)
      \<and> proxy_field lastFailure (settings_store st') = Some (failure_time env)
      \<and> proxy_field retryCount (settings_store st') = Some 0
      \<and> proxy_field useFallback (settings_store st')
          = proxy_field useFallback (settings_store st)
      \<and> fallback_credential (settings_store st') (model_provider model)
          = fallback_credential (settings_store st) (model_provider model)"
  using assms by (rule getModelClient_after_exhaustion)

theorem getModelClient_exhausted_witness:
  "proxy_routing_on outage_settings
   \<and> recent_failure outage_env outage_settings = False
   \<and> isl (always_fails timed_out 10 :: op_error + unit)
   \<and> length (failed_requests (snd
         (getModelClient outage_env (always_fails timed_out :: nat \<Rightarrow> op_error + unit) gpt4
            outage_settings \<lparr>settings_store = outage_settings, failed_requests = []\<rparr>))) = 1
   \<and> proxy_field lastFailure (settings_store (snd
         (getModelClient outage_env (always_fails timed_out :: nat \<Rightarrow> op_error + unit) gpt4
            outage_settings \<lparr>settings_store = outage_settings, failed_requests = []\<rparr>)))
       = Some ''2026-01-01T10:00:02Z''"
proof -
  let ?st = "\<lparr>settings_store = outage_settings, failed_requests = []\<rparr>"
  let ?run = "getModelClient outage_env (always_fails timed_out :: nat \<Rightarrow> op_error + unit)
                gpt4 outage_settings ?st"
  have h: "?run = (fst ?run, snd ?run)" by simp
  from getModelClient_exhausted [OF outage_preconditions(1,2,3) h]
  have len: "length (failed_requests (snd ?run)) =
          length (failed_requests ?st) + (if insert_succeeds outage_env then 1 else 0)"
    and lf: "proxy_field lastFailure (settings_store (snd ?run))
          = Some (failure_time outage_env)"
    by blast+
  have i: "isl (always_fails timed_out 10 :: op_error + unit)"
    by (simp add: always_fails_def)
  from len lf i outage_preconditions(1,2) show ?thesis
    by (simp add: outage_env_def)
qed

end
